theory Spec2Isabelle
  imports Complex_Main
begin

section \<open>The amount range estimator\<close>

text \<open>
  Source: \<^verbatim>\<open>getAmountRangeFilter\<close> in
  \<^verbatim>\<open>components/dashboard/sections/transactions-imports/MatchContributionDialog.tsx\<close>.

  Numbers. A JavaScript number is a double; here it is a real number, and the products
  and the roundings are exact. The amount is an integer number of cents, so \<open>0.8 * v\<close>
  and \<open>1.2 * v\<close> are multiples of 0.2: such a value either is a multiple of the power
  of ten it is rounded at, or is at least 0.2 away from the next one. The error of the
  double product is in its 16th significant digit, so for the amounts of a bank
  statement the doubles round to the same integers as the exact values do. The model
  does not follow the doubles further than that.
\<close>

subsection \<open>lodash: floor and ceil with a precision\<close>

text \<open>
  lodash's \<^verbatim>\<open>floor(number, precision)\<close> and \<^verbatim>\<open>ceil(number, precision)\<close> clamp the
  precision to at most 292, and when it is not zero shift the decimal exponent of the
  number by the precision, round to an integer, and shift back; with precision zero
  they are \<^verbatim>\<open>Math.floor\<close> and \<^verbatim>\<open>Math.ceil\<close>.
\<close>

definition shift10 :: "real \<Rightarrow> int \<Rightarrow> real" where
  "shift10 x e = (if 0 \<le> e then x * 10 ^ nat e else x / 10 ^ nat (- e))"

definition floor_lodash :: "real \<Rightarrow> int \<Rightarrow> real" where
  "floor_lodash number precision =
     (let p = min precision 292
      in if p \<noteq> 0 then shift10 (of_int \<lfloor>shift10 number p\<rfloor>) (- p)
         else of_int \<lfloor>number\<rfloor>)"

definition ceil_lodash :: "real \<Rightarrow> int \<Rightarrow> real" where
  "ceil_lodash number precision =
     (let p = min precision 292
      in if p \<noteq> 0 then shift10 (of_int \<lceil>shift10 number p\<rceil>) (- p)
         else of_int \<lceil>number\<rceil>)"

subsection \<open>The integer part of the decimal logarithm\<close>

text \<open>
  \<^verbatim>\<open>Math.floor(Math.log10(v))\<close> for an integer \<open>v > 0\<close>: one less than the number
  of decimal digits of \<open>v\<close>. Lemma \<open>floor_log10_is_floor_log\<close> below ties the
  recursion to the logarithm.
\<close>

fun floor_log10 :: "nat \<Rightarrow> nat" where
  "floor_log10 n = (if n < 10 then 0 else Suc (floor_log10 (n div 10)))"

declare floor_log10.simps [simp del]

subsection \<open>getAmountRangeFilter\<close>

text \<open>
  The filter type is declared in \<^verbatim>\<open>filters/AmountFilter/schema\<close>, outside the
  sources at hand; the function uses the member \<^verbatim>\<open>IS_BETWEEN\<close> only.
\<close>

datatype AmountFilterType = IS_BETWEEN

record amount_filter =
  type :: AmountFilterType
  gte :: real
  lte :: real

text \<open>
  \<^verbatim>\<open>
  const getAmountRangeFilter = (valueInCents: number) => {
    const precision = -Math.floor(Math.log10(valueInCents));
    return {
      type: AmountFilterType.IS_BETWEEN,
      gte: floor(valueInCents * 0.8, precision),
      lte: ceil(valueInCents * 1.2, precision),
    };
  };
  \<close>
  For an amount that is not positive \<^verbatim>\<open>Math.log10\<close> is \<^verbatim>\<open>-Infinity\<close> or
  \<^verbatim>\<open>NaN\<close>, which this model of numbers does not have: the function is modelled on
  positive amounts, and is \<open>None\<close> elsewhere.
\<close>

definition precision_of :: "int \<Rightarrow> int" where
  "precision_of valueInCents = - int (floor_log10 (nat valueInCents))"

definition getAmountRangeFilter :: "int \<Rightarrow> amount_filter option" where
  "getAmountRangeFilter valueInCents =
     (if valueInCents \<le> 0 then None
      else
        let precision = precision_of valueInCents
        in Some \<lparr> type = IS_BETWEEN,
                  gte = floor_lodash (of_int valueInCents * (8 / 10)) precision,
                  lte = ceil_lodash (of_int valueInCents * (12 / 10)) precision \<rparr>)"


section \<open>The raw-value list\<close>

text \<open>
  Modelled from the spec: the type \<^verbatim>\<open>CSVConfig\<close> is declared in \<^verbatim>\<open>./lib/types\<close>,
  which is not among the sources. The function reads
  \<^verbatim>\<open>csvConfig.columns.credit.target\<close>, \<^verbatim>\<open>columns.debit.target\<close> and
  \<^verbatim>\<open>columns.date.target\<close>: each names the column of the CSV file that the credit,
  the debit or the date of a row is read from (the spec's ``source columns''; the
  amount of a row is its credit or its debit).
\<close>

record csv_column =
  target :: string

record csv_columns =
  credit :: csv_column
  debit :: csv_column
  date :: csv_column

record CSVConfig =
  columns :: csv_columns

text \<open>lodash's \<^verbatim>\<open>isEmpty\<close> on a string: the string has no character.\<close>

definition isEmpty :: "string \<Rightarrow> bool" where
  "isEmpty value = (value = [])"

text \<open>
  \<^verbatim>\<open>
  const filterRawValueEntries = ([key, value]: [string, string], csvConfig: CSVConfig): boolean => {
    if (isEmpty(value)) { return false; }
    if (csvConfig) {
      const { columns } = csvConfig;
      if ([columns.credit.target, columns.debit.target, columns.date.target].includes(key)) {
        return false;
      }
    }
    return true;
  };
  \<close>
  A \<^verbatim>\<open>csvConfig\<close> that is null or undefined is \<open>None\<close>.
\<close>

fun filterRawValueEntries :: "string \<times> string \<Rightarrow> CSVConfig option \<Rightarrow> bool" where
  "filterRawValueEntries (key, value) csvConfig =
     (if isEmpty value then False
      else case csvConfig of
        None \<Rightarrow> True
      | Some config \<Rightarrow>
          if key \<in> set [target (credit (columns config)), target (debit (columns config)),
                         target (date (columns config))]
          then False
          else True)"

text \<open>
  The list shown in the dialog:
  \<^verbatim>\<open>Object.entries(row.rawValue).filter(entry => filterRawValueEntries(entry, transactionsImport.csvConfig))\<close>.
  \<^verbatim>\<open>Object.entries\<close> is the list of the key-value pairs of the object.
\<close>

definition displayedRawValues :: "(string \<times> string) list \<Rightarrow> CSVConfig option \<Rightarrow> (string \<times> string) list" where
  "displayedRawValues rawValue csvConfig =
     filter (\<lambda>entry. filterRawValueEntries entry csvConfig) rawValue"


section \<open>The dialog\<close>

subsection \<open>Data\<close>

text \<open>
  Modelled from the spec: the enumeration \<^verbatim>\<open>OrderStatus\<close> is declared in
  \<^verbatim>\<open>lib/graphql/types/v2/graphql\<close>, which is not among the sources. The dialog
  compares a status with \<^verbatim>\<open>OrderStatus.PENDING\<close> only; the spec names \<^verbatim>\<open>PENDING\<close>
  and \<^verbatim>\<open>PAID\<close>, and every other member is an \<open>OTHER_STATUS\<close> with its name.
\<close>

datatype OrderStatus = PENDING | PAID | OTHER_STATUS string

text \<open>
  A contribution of the suggestions table, with the fields that the dialog's logic
  reads. A status that is absent or empty (both are falsy) is \<open>None\<close>.
\<close>

record order =
  order_id :: string
  legacyId :: int
  status :: "OrderStatus option"

record TransactionsImportRow =
  row_id :: string
  rawValue :: "(string \<times> string) list"

record TransactionsImportStats =
  processed :: int
  orders :: int

record TransactionsImport =
  import_id :: string
  csvConfig :: "CSVConfig option"

text \<open>The properties of the component; \<^verbatim>\<open>onClose\<close> is the effect \<open>OnClose\<close> below.\<close>

record props =
  row :: TransactionsImportRow
  transactionsImport :: TransactionsImport

text \<open>The three \<^verbatim>\<open>React.useState\<close> cells.\<close>

record dialog_state =
  selectedContribution :: "order option"
  isConfirming :: bool
  isSubmitting :: bool

text \<open>
  The Apollo cache, as far as the dialog writes it: the \<^verbatim>\<open>order\<close> field of the cached
  rows and the \<^verbatim>\<open>stats\<close> field of the cached imports, by identity.
  \<^verbatim>\<open>cache.modify\<close> changes a field of an object that is in the cache, and does
  nothing when the object is not there.
\<close>

record apollo_cache =
  row_order :: "string \<rightharpoonup> order option"
  import_stats :: "string \<rightharpoonup> TransactionsImportStats"

definition modify_row_order :: "string \<Rightarrow> (order option \<Rightarrow> order option) \<Rightarrow> apollo_cache \<Rightarrow> apollo_cache" where
  "modify_row_order ident f c =
     (case row_order c ident of
        None \<Rightarrow> c
      | Some v \<Rightarrow> c\<lparr>row_order := (row_order c)(ident \<mapsto> f v)\<rparr>)"

definition modify_stats :: "string \<Rightarrow> (TransactionsImportStats \<Rightarrow> TransactionsImportStats) \<Rightarrow> apollo_cache \<Rightarrow> apollo_cache" where
  "modify_stats ident f c =
     (case import_stats c ident of
        None \<Rightarrow> c
      | Some v \<Rightarrow> c\<lparr>import_stats := (import_stats c)(ident \<mapsto> f v)\<rparr>)"

text \<open>The variables of the \<^verbatim>\<open>updateTransactionsImportRows\<close> mutation.\<close>

record order_reference =
  ref_id :: string

record row_update =
  update_id :: string
  update_order :: order_reference

record update_variables =
  importId :: string
  rows :: "row_update list"

text \<open>
  What the dialog does to the world outside its own state, in the order in which it does
  it: a call of \<^verbatim>\<open>onClose\<close> (with the cache as it is at that moment, which is what the
  parent's views read), a call of \<^verbatim>\<open>updateRows\<close>, an error toast (with the error that
  \<^verbatim>\<open>i18nGraphqlException\<close> turns into the message).
\<close>

datatype effect =
    OnClose apollo_cache
  | UpdateRows update_variables
  | ToastError string

text \<open>How the promise of \<^verbatim>\<open>updateRows\<close> settles.\<close>

datatype outcome = Resolved | Rejected string

record world =
  dialog :: dialog_state
  cache :: apollo_cache
  effects :: "effect list"
  inflight :: nat

definition initial :: "apollo_cache \<Rightarrow> world" where
  "initial c =
     \<lparr> dialog = \<lparr> selectedContribution = None, isConfirming = False, isSubmitting = False \<rparr>,
       cache = c, effects = [], inflight = 0 \<rparr>"

subsection \<open>State setters and callbacks\<close>

definition setSelectedContribution :: "order option \<Rightarrow> world \<Rightarrow> world" where
  "setSelectedContribution c w = w\<lparr>dialog := (dialog w)\<lparr>selectedContribution := c\<rparr>\<rparr>"

definition setIsConfirming :: "bool \<Rightarrow> world \<Rightarrow> world" where
  "setIsConfirming b w = w\<lparr>dialog := (dialog w)\<lparr>isConfirming := b\<rparr>\<rparr>"

definition setIsSubmitting :: "bool \<Rightarrow> world \<Rightarrow> world" where
  "setIsSubmitting b w = w\<lparr>dialog := (dialog w)\<lparr>isSubmitting := b\<rparr>\<rparr>"

definition onClose :: "world \<Rightarrow> world" where
  "onClose w = w\<lparr>effects := effects w @ [OnClose (cache w)]\<rparr>"

definition toast :: "string \<Rightarrow> world \<Rightarrow> world" where
  "toast e w = w\<lparr>effects := effects w @ [ToastError e]\<rparr>"

definition updateRows :: "update_variables \<Rightarrow> world \<Rightarrow> world" where
  "updateRows v w = w\<lparr>effects := effects w @ [UpdateRows v], inflight := Suc (inflight w)\<rparr>"


text \<open>
  The callbacks given to \<^verbatim>\<open>ConfirmContributionForm\<close>:
  \<^verbatim>\<open>
  onSubmit={() => setIsSubmitting(true)}
  onFailure={() => setIsSubmitting(false)}
  onSuccess={() => {
    client.cache.modify({ id: client.cache.identify(row), fields: { order: () => selectedContribution } });
    client.cache.modify({
      id: client.cache.identify(transactionsImport),
      fields: { stats: stats => ({ ...stats, processed: stats.processed + 1, orders: stats.orders + 1 }) },
    });
    onClose();
  }}
  \<close>
\<close>

definition onSubmit :: "world \<Rightarrow> world" where
  "onSubmit w = setIsSubmitting True w"

definition onFailure :: "world \<Rightarrow> world" where
  "onFailure w = setIsSubmitting False w"

definition onSuccess :: "props \<Rightarrow> world \<Rightarrow> world" where
  "onSuccess p w =
     (let w1 = w\<lparr>cache := modify_row_order (row_id (row p))
                   (\<lambda>_. selectedContribution (dialog w)) (cache w)\<rparr>;
          w2 = w1\<lparr>cache := modify_stats (import_id (transactionsImport p))
                   (\<lambda>stats. stats\<lparr>processed := processed stats + 1, orders := orders stats + 1\<rparr>)
                   (cache w1)\<rparr>
      in onClose w2)"

text \<open>
  The click handler of the Save button:
  \<^verbatim>\<open>
  onClick={async () => {
    try {
      setIsSubmitting(true);
      await updateRows({
        variables: { importId: transactionsImport.id, rows: [{ id: row.id, order: { id: selectedContribution.id } }] },
      });
    } catch (error) {
      toast({ variant: 'error', message: i18nGraphqlException(intl, error) });
    } finally {
      onClose();
    }
  }}
  \<close>
  \<open>save_try\<close> is the handler up to the \<^verbatim>\<open>await\<close>: the world then, and the error
  thrown if any (reading \<^verbatim>\<open>.id\<close> of a null selection throws). \<open>save_settle\<close> is the
  rest of the handler, run when the promise settles. \<open>save_onClick\<close> is the whole
  handler, with the outcome of the request as a parameter.
\<close>

definition save_try :: "props \<Rightarrow> world \<Rightarrow> world \<times> string option" where
  "save_try p w =
     (let w1 = setIsSubmitting True w
      in case selectedContribution (dialog w) of
           None \<Rightarrow> (w1, Some ''TypeError'')
         | Some c \<Rightarrow>
             (updateRows \<lparr> importId = import_id (transactionsImport p),
                           rows = [\<lparr> update_id = row_id (row p),
                                     update_order = \<lparr> ref_id = order_id c \<rparr> \<rparr>] \<rparr> w1,
              None))"

definition save_catch_finally :: "string option \<Rightarrow> world \<Rightarrow> world" where
  "save_catch_finally thrown w =
     onClose (case thrown of None \<Rightarrow> w | Some e \<Rightarrow> toast e w)"

definition save_settle :: "outcome \<Rightarrow> world \<Rightarrow> world" where
  "save_settle result w =
     save_catch_finally (case result of Resolved \<Rightarrow> None | Rejected e \<Rightarrow> Some e)
       (w\<lparr>inflight := inflight w - 1\<rparr>)"

definition save_click :: "props \<Rightarrow> world \<Rightarrow> world" where
  "save_click p w =
     (case save_try p w of
        (w1, None) \<Rightarrow> w1
      | (w1, Some e) \<Rightarrow> save_catch_finally (Some e) w1)"

definition save_onClick :: "props \<Rightarrow> outcome \<Rightarrow> world \<Rightarrow> world" where
  "save_onClick p result w =
     (case save_try p w of
        (w1, None) \<Rightarrow> save_settle result w1
      | (w1, Some e) \<Rightarrow> save_catch_finally (Some e) w1)"

subsection \<open>What is rendered\<close>

text \<open>
  The footer of the browsing view:
  \<^verbatim>\<open>
  {!selectedContribution?.status || selectedContribution.status === OrderStatus.PENDING ? (
    <Button disabled={!selectedContribution} onClick={() => setIsConfirming(true)}> Next </Button>
  ) : (
    <Button type="submit" loading={isSubmitting} onClick={async () => ...}> Save </Button>
  )}
  \<close>
  It is rendered when \<^verbatim>\<open>isConfirming\<close> is false; when it is true the confirmation
  form is rendered in its place, with a Back button. What \<^verbatim>\<open>loading\<close> does to a
  button is decided by the \<^verbatim>\<open>Button\<close> component, which is not among the sources: a
  loading button counts as enabled here.
\<close>

definition showsNext :: "dialog_state \<Rightarrow> bool" where
  "showsNext d =
     (case selectedContribution d of
        None \<Rightarrow> True
      | Some c \<Rightarrow> (case status c of None \<Rightarrow> True | Some s \<Rightarrow> s = PENDING))"

datatype button = NotRendered | Disabled | Enabled

definition nextButton :: "dialog_state \<Rightarrow> button" where
  "nextButton d =
     (if isConfirming d then NotRendered
      else if showsNext d then (if selectedContribution d = None then Disabled else Enabled)
      else NotRendered)"

definition saveButton :: "dialog_state \<Rightarrow> button" where
  "saveButton d =
     (if isConfirming d then NotRendered
      else if showsNext d then NotRendered
      else Enabled)"

subsection \<open>Events\<close>

text \<open>
  What can happen to the dialog: the suggestions table sets the selection; the user
  clicks Next, Save, Cancel or Back; the \<^verbatim>\<open>Dialog\<close> reports a change of its open state
  (\<^verbatim>\<open>onOpenChange={onClose}\<close>); the confirmation form calls one of its three
  callbacks; the promise of \<^verbatim>\<open>updateRows\<close> settles.

  An event is offered when the control it comes from is rendered and enabled: the table,
  Next, Save and Cancel in the browsing view, the form and Back in the confirming view.
\<close>

datatype event =
    SelectContribution "order option"
  | ClickNext
  | ClickSave
  | ClickCancel
  | ClickBack
  | OpenChange
  | FormSubmit
  | FormFailure
  | FormSuccess
  | UpdateRowsSettled outcome

fun offered :: "world \<Rightarrow> event \<Rightarrow> bool" where
  "offered w (SelectContribution c) = (\<not> isConfirming (dialog w))"
| "offered w ClickNext = (nextButton (dialog w) = Enabled)"
| "offered w ClickSave = (saveButton (dialog w) = Enabled)"
| "offered w ClickCancel = (\<not> isConfirming (dialog w))"
| "offered w ClickBack = isConfirming (dialog w)"
| "offered w OpenChange = True"
| "offered w FormSubmit = isConfirming (dialog w)"
| "offered w FormFailure = isConfirming (dialog w)"
| "offered w FormSuccess = isConfirming (dialog w)"
| "offered w (UpdateRowsSettled result) = (0 < inflight w)"

fun handle :: "props \<Rightarrow> event \<Rightarrow> world \<Rightarrow> world" where
  "handle p (SelectContribution c) w = setSelectedContribution c w"
| "handle p ClickNext w = setIsConfirming True w"
| "handle p ClickSave w = save_click p w"
| "handle p ClickCancel w = onClose w"
| "handle p ClickBack w = setIsConfirming False w"
| "handle p OpenChange w = onClose w"
| "handle p FormSubmit w = onSubmit w"
| "handle p FormFailure w = onFailure w"
| "handle p FormSuccess w = onSuccess p w"
| "handle p (UpdateRowsSettled result) w = save_settle result w"

text \<open>An event that is not offered changes nothing.\<close>

definition dispatch :: "props \<Rightarrow> world \<Rightarrow> event \<Rightarrow> world" where
  "dispatch p w e = (if offered w e then handle p e w else w)"

definition run :: "props \<Rightarrow> world \<Rightarrow> event list \<Rightarrow> world" where
  "run p w es = foldl (dispatch p) w es"

text \<open>The worlds that the dialog can be in, from its first render on.\<close>

inductive reachable :: "props \<Rightarrow> world \<Rightarrow> bool" for p :: props where
  start: "reachable p (initial c)"
| step: "reachable p w \<Longrightarrow> offered w e \<Longrightarrow> reachable p (handle p e w)"

subsection \<open>The invariant of the confirming view\<close>

definition confirming_ok :: "dialog_state \<Rightarrow> bool" where
  "confirming_ok d =
     (if isConfirming d then showsNext d \<and> selectedContribution d \<noteq> None else True)"

subsection \<open>Example inputs\<close>

definition example_pending :: order where
  "example_pending = \<lparr> order_id = ''order-7'', legacyId = 7, status = Some PENDING \<rparr>"

definition example_paid :: order where
  "example_paid = \<lparr> order_id = ''order-9'', legacyId = 9, status = Some PAID \<rparr>"

definition example_config :: CSVConfig where
  "example_config =
     \<lparr> columns = \<lparr> credit = \<lparr> target = ''Credit'' \<rparr>,
                     debit = \<lparr> target = ''Debit'' \<rparr>,
                     date = \<lparr> target = ''Date'' \<rparr> \<rparr> \<rparr>"

definition example_props :: props where
  "example_props =
     \<lparr> row = \<lparr> row_id = ''row-1'',
                rawValue = [(''Date'', ''2024-05-01''), (''Credit'', ''12.30''), (''Debit'', ''''),
                            (''Memo'', ''Invoice 42''), (''Reference'', '''')] \<rparr>,
       transactionsImport = \<lparr> import_id = ''import-1'', csvConfig = Some example_config \<rparr> \<rparr>"

definition example_cache :: apollo_cache where
  "example_cache =
     \<lparr> row_order = [''row-1'' \<mapsto> None],
       import_stats = [''import-1'' \<mapsto> \<lparr> processed = 3, orders = 1 \<rparr>] \<rparr>"

lemmas amount_defs = getAmountRangeFilter_def precision_of_def floor_log10.simps
  floor_lodash_def ceil_lodash_def shift10_def

lemmas setters = setSelectedContribution_def setIsConfirming_def setIsSubmitting_def
  onClose_def toast_def updateRows_def onSubmit_def onFailure_def

lemmas view = nextButton_def saveButton_def showsNext_def

lemmas examples = example_pending_def example_paid_def example_config_def example_props_def
  example_cache_def


section \<open>Properties of the amount range estimator\<close>

subsection \<open>The recursion computes the integer part of the logarithm\<close>

lemma floor_log10_bounds:
  "0 < n \<Longrightarrow> 10 ^ floor_log10 n \<le> n \<and> n < 10 ^ Suc (floor_log10 n)"
proof (induction n rule: floor_log10.induct)
  case (1 n)
  show ?case
  proof (cases "n < 10")
    case True
    with 1 show ?thesis by (simp add: floor_log10.simps [of n])
  next
    case False
    then have pos: "0 < n div 10" by simp
    have eq: "floor_log10 n = Suc (floor_log10 (n div 10))"
      using False by (simp add: floor_log10.simps [of n])
    define k where "k = floor_log10 (n div 10)"
    from 1 False pos have IH: "10 ^ k \<le> n div 10 \<and> n div 10 < 10 ^ Suc k"
      unfolding k_def by simp
    have lo: "10 * 10 ^ k \<le> n"
    proof -
      from IH have "10 * 10 ^ k \<le> 10 * (n div 10)" by simp
      also have "\<dots> \<le> n" by simp
      finally show ?thesis .
    qed
    have hi: "n < 10 * 10 ^ Suc k"
    proof -
      from IH have "Suc (n div 10) \<le> 10 ^ Suc k" by simp
      then have "10 * Suc (n div 10) \<le> 10 * 10 ^ Suc k" by (rule mult_le_mono2)
      moreover have "n < 10 * Suc (n div 10)"
        using dividend_less_times_div [of 10 n] by simp
      ultimately show ?thesis by linarith
    qed
    from lo hi show ?thesis unfolding eq k_def [symmetric] by simp
  qed
qed

lemma floor_log10_is_floor_log:
  assumes "0 < n"
  shows "\<lfloor>log 10 (real n)\<rfloor> = int (floor_log10 n)"
proof -
  from floor_log10_bounds [OF assms]
  have "(10::nat) ^ floor_log10 n \<le> n" and "n < (10::nat) ^ (floor_log10 n + 1)" by simp_all
  then have "\<lfloor>log (real (10::nat)) (real n)\<rfloor> = int (floor_log10 n)"
    by (rule floor_log_nat_eq_if) simp
  then show ?thesis by simp
qed

lemma precision_of_is_minus_floor_log:
  "0 < v \<Longrightarrow> precision_of v = - \<lfloor>log 10 (of_int v)\<rfloor>"
  using floor_log10_is_floor_log [of "nat v"] by (simp add: precision_of_def)

subsection \<open>Rounding at a precision\<close>

lemma shift10_back: "shift10 (shift10 x p) (- p) = x"
  by (simp add: shift10_def)

lemma shift10_mono: "x \<le> y \<Longrightarrow> shift10 x p \<le> shift10 y p"
  by (simp add: shift10_def divide_right_mono)

lemma shift10_nonneg: "0 \<le> x \<Longrightarrow> 0 \<le> shift10 x p"
  by (simp add: shift10_def)

lemma floor_lodash_le: "floor_lodash x p \<le> x"
proof -
  have "shift10 (of_int \<lfloor>shift10 x q\<rfloor>) (- q) \<le> x" for q
    using shift10_mono [of "of_int \<lfloor>shift10 x q\<rfloor>" "shift10 x q" "- q"]
    by (simp add: shift10_back)
  then show ?thesis by (simp add: floor_lodash_def Let_def)
qed

lemma ceil_lodash_ge: "x \<le> ceil_lodash x p"
proof -
  have "x \<le> shift10 (of_int \<lceil>shift10 x q\<rceil>) (- q)" for q
    using shift10_mono [of "shift10 x q" "of_int \<lceil>shift10 x q\<rceil>" "- q"]
    by (simp add: shift10_back)
  then show ?thesis by (simp add: ceil_lodash_def Let_def)
qed

lemma floor_lodash_nonneg: "0 \<le> x \<Longrightarrow> 0 \<le> floor_lodash x p"
  by (simp add: floor_lodash_def Let_def shift10_nonneg)

subsection \<open>The two examples of the documentation\<close>

text \<open>
  Claim C1, as stated: \<open>getAmountRangeFilter\<close> at 123 is the range from 100 to 200, and
  at 123456 the range from 100000 to 200000. It fails: 80 percent of 123 is 98.4, and
  rounded down to hundreds that is 0, not 100.
\<close>

theorem getAmountRangeFilter_123_not_from_100:
  "getAmountRangeFilter 123 \<noteq> Some \<lparr> type = IS_BETWEEN, gte = 100, lte = 200 \<rparr>"
  by (simp add: amount_defs)

text \<open>
  Claim C1, amended: \<open>getAmountRangeFilter\<close> at 123 is the range from 0 to 200, and at
  123456 the range from 0 to 200000.
\<close>

theorem getAmountRangeFilter_examples:
  "getAmountRangeFilter 123 = Some \<lparr> type = IS_BETWEEN, gte = 0, lte = 200 \<rparr> \<and>
   getAmountRangeFilter 123456 = Some \<lparr> type = IS_BETWEEN, gte = 0, lte = 200000 \<rparr>"
  by (simp add: amount_defs)

subsection \<open>The range contains the amount\<close>

text \<open>
  Claim C7: for every positive integer \<open>v\<close>, the range of \<open>getAmountRangeFilter v\<close> has
  \<open>gte \<le> v \<le> lte\<close>, and both bounds are non-negative.
\<close>

theorem getAmountRangeFilter_contains_amount:
  assumes "0 < v"
  shows "\<exists>r. getAmountRangeFilter v = Some r \<and> gte r \<le> of_int v \<and> of_int v \<le> lte r
           \<and> 0 \<le> gte r \<and> 0 \<le> lte r"
proof -
  let ?lo = "floor_lodash (of_int v * (8 / 10)) (precision_of v)"
  let ?hi = "ceil_lodash (of_int v * (12 / 10)) (precision_of v)"
  have v: "(0::real) < of_int v" using assms by simp
  have "?lo \<le> of_int v * (8 / 10)" by (rule floor_lodash_le)
  with v have lo: "?lo \<le> of_int v" by simp
  have "of_int v * (12 / 10) \<le> ?hi" by (rule ceil_lodash_ge)
  with v have hi: "of_int v \<le> ?hi" by simp
  from v have lo0: "0 \<le> ?lo" by (intro floor_lodash_nonneg) simp
  from v hi have hi0: "0 \<le> ?hi" by simp
  from assms lo hi lo0 hi0 show ?thesis
    by (simp add: getAmountRangeFilter_def Let_def)
qed

theorem getAmountRangeFilter_contains_amount_witness:
  "(0::int) < 500 \<and>
   getAmountRangeFilter 500 = Some \<lparr> type = IS_BETWEEN, gte = 400, lte = 600 \<rparr> \<and>
   (\<exists>r. getAmountRangeFilter 500 = Some r \<and> gte r \<le> of_int 500 \<and> of_int 500 \<le> lte r
      \<and> 0 \<le> gte r \<and> 0 \<le> lte r)"
  using getAmountRangeFilter_contains_amount [of 500] by (simp add: amount_defs)


section \<open>Properties of the raw-value list\<close>

text \<open>
  Claim C9: the displayed raw-value list has no entry with an empty value, and no key
  that the CSV configuration of the import names as the column of the credit, of the
  debit (the two columns of the amount) or of the date.
\<close>

theorem displayedRawValues_excludes:
  "\<forall>(key, value) \<in> set (displayedRawValues raw cfg).
     value \<noteq> [] \<and>
     (\<forall>config. cfg = Some config \<longrightarrow>
        key \<noteq> target (credit (columns config)) \<and>
        key \<noteq> target (debit (columns config)) \<and>
        key \<noteq> target (date (columns config)))"
  by (auto simp: displayedRawValues_def isEmpty_def split: if_splits option.splits)

theorem displayedRawValues_excludes_witness:
  "displayedRawValues (rawValue (row example_props)) (Some example_config)
     = [(''Memo'', ''Invoice 42'')] \<and>
   (''Memo'', ''Invoice 42'') \<in> set (displayedRawValues (rawValue (row example_props)) (Some example_config)) \<and>
   ''Invoice 42'' \<noteq> [] \<and>
   ''Memo'' \<noteq> target (credit (columns example_config)) \<and>
   ''Memo'' \<noteq> target (debit (columns example_config)) \<and>
   ''Memo'' \<noteq> target (date (columns example_config))"
  using displayedRawValues_excludes [of "rawValue (row example_props)" "Some example_config"]
  by (simp add: displayedRawValues_def isEmpty_def examples)

text \<open>
  Claim C10: without a CSV configuration, \<open>filterRawValueEntries\<close> keeps every entry
  whose value is not empty.
\<close>

theorem filterRawValueEntries_without_config:
  "value \<noteq> [] \<Longrightarrow> filterRawValueEntries (key, value) None"
  by (simp add: isEmpty_def)

theorem filterRawValueEntries_without_config_witness:
  "''12.30'' \<noteq> [] \<and> filterRawValueEntries (''Credit'', ''12.30'') None \<and>
   \<not> filterRawValueEntries (''Credit'', ''12.30'') (Some example_config)"
  using filterRawValueEntries_without_config [of "''12.30''" "''Credit''"]
  by (simp add: isEmpty_def examples)



section \<open>Properties of the dialog\<close>

subsection \<open>What the handlers do to the dialog's own state\<close>


lemma dialog_save_try:
  "dialog (fst (save_try p w)) = (dialog w)\<lparr>isSubmitting := True\<rparr>"
  by (simp add: save_try_def setters Let_def split: option.splits)

lemma dialog_save_catch_finally: "dialog (save_catch_finally t w) = dialog w"
  by (simp add: save_catch_finally_def setters split: option.splits)

lemma dialog_save_settle: "dialog (save_settle r w) = dialog w"
  by (simp add: save_settle_def dialog_save_catch_finally)

lemma dialog_save_click: "dialog (save_click p w) = (dialog w)\<lparr>isSubmitting := True\<rparr>"
proof (cases "save_try p w")
  case (Pair w1 thrown)
  with dialog_save_try [of p w] show ?thesis
    by (simp add: save_click_def dialog_save_catch_finally split: option.splits)
qed

lemma dialog_save_onClick: "dialog (save_onClick p r w) = (dialog w)\<lparr>isSubmitting := True\<rparr>"
proof (cases "save_try p w")
  case (Pair w1 thrown)
  with dialog_save_try [of p w] show ?thesis
    by (simp add: save_onClick_def dialog_save_catch_finally dialog_save_settle
          split: option.splits)
qed

lemma dialog_onSuccess: "dialog (onSuccess p w) = dialog w"
  by (simp add: onSuccess_def Let_def setters)

subsection \<open>The confirming view has a pending selection\<close>

lemma handle_confirming_ok:
  assumes "confirming_ok (dialog w)" "offered w e"
  shows "confirming_ok (dialog (handle p e w))"
  using assms
  by (cases e)
     (auto simp: confirming_ok_def setters view dialog_save_click dialog_save_settle
        dialog_onSuccess split: if_splits option.splits)

lemma reachable_confirming_ok: "reachable p w \<Longrightarrow> confirming_ok (dialog w)"
proof (induction rule: reachable.induct)
  case (start c)
  show ?case by (simp add: initial_def confirming_ok_def)
next
  case (step w e)
  then show ?case by (simp add: handle_confirming_ok)
qed

lemma reachable_dispatch: "reachable p w \<Longrightarrow> reachable p (dispatch p w e)"
  by (simp add: dispatch_def reachable.step)

lemma reachable_run: "reachable p w \<Longrightarrow> reachable p (run p w es)"
  unfolding run_def by (induction es arbitrary: w) (simp_all add: reachable_dispatch)

lemma run_Nil: "run p w [] = w"
  by (simp add: run_def)

lemma run_Cons: "run p w (e # es) = run p (dispatch p w e) es"
  by (simp add: run_def)

subsection \<open>Two example runs\<close>

lemma example_confirming:
  "run example_props (initial example_cache) [SelectContribution (Some example_pending), ClickNext]
   = \<lparr> dialog = \<lparr> selectedContribution = Some example_pending, isConfirming = True,
                   isSubmitting = False \<rparr>,
       cache = example_cache, effects = [], inflight = 0 \<rparr>"
  by (simp add: run_Cons run_Nil dispatch_def initial_def setters view example_pending_def)

lemma example_paid_selected:
  "run example_props (initial example_cache) [SelectContribution (Some example_paid)]
   = \<lparr> dialog = \<lparr> selectedContribution = Some example_paid, isConfirming = False,
                   isSubmitting = False \<rparr>,
       cache = example_cache, effects = [], inflight = 0 \<rparr>"
  by (simp add: run_Cons run_Nil dispatch_def initial_def setters view example_paid_def)

text \<open>
  Claim C4: in every reachable state of the dialog, \<open>isConfirming\<close> implies that a
  contribution is selected; and the two commit actions, the submit of the confirmation
  form and the Save of the direct link, are offered only in a state with a selection.
\<close>

theorem confirming_has_selection:
  assumes "reachable p w"
  shows "(isConfirming (dialog w) \<longrightarrow> selectedContribution (dialog w) \<noteq> None) \<and>
         (offered w FormSubmit \<longrightarrow> selectedContribution (dialog w) \<noteq> None) \<and>
         (offered w ClickSave \<longrightarrow> selectedContribution (dialog w) \<noteq> None)"
  using reachable_confirming_ok [OF assms]
  by (auto simp: confirming_ok_def view split: if_splits option.splits)

theorem confirming_has_selection_witness:
  "reachable example_props
     (run example_props (initial example_cache) [SelectContribution (Some example_pending), ClickNext]) \<and>
   isConfirming (dialog
     (run example_props (initial example_cache) [SelectContribution (Some example_pending), ClickNext])) \<and>
   offered
     (run example_props (initial example_cache) [SelectContribution (Some example_pending), ClickNext])
     FormSubmit \<and>
   selectedContribution (dialog
     (run example_props (initial example_cache) [SelectContribution (Some example_pending), ClickNext]))
     = Some example_pending \<and>
   reachable example_props
     (run example_props (initial example_cache) [SelectContribution (Some example_paid)]) \<and>
   offered (run example_props (initial example_cache) [SelectContribution (Some example_paid)]) ClickSave \<and>
   selectedContribution (dialog
     (run example_props (initial example_cache) [SelectContribution (Some example_paid)]))
     = Some example_paid"
proof -
  let ?w = "run example_props (initial example_cache)
              [SelectContribution (Some example_pending), ClickNext]"
  let ?v = "run example_props (initial example_cache) [SelectContribution (Some example_paid)]"
  have rw: "reachable example_props ?w" and rv: "reachable example_props ?v"
    by (rule reachable_run [OF reachable.start])+
  have w: "isConfirming (dialog ?w)" "offered ?w FormSubmit"
    by (simp_all add: example_confirming)
  have v: "offered ?v ClickSave"
    unfolding example_paid_selected by (simp add: view example_paid_def)
  from confirming_has_selection [OF rw] confirming_has_selection [OF rv] rw rv w v show ?thesis
    by (simp add: example_confirming example_paid_selected)
qed

text \<open>
  Claim C8: when no contribution is selected, a click on Next does nothing: the state is
  unchanged, and the Next button, where it is rendered, is disabled.
\<close>

theorem next_without_selection:
  assumes "selectedContribution (dialog w) = None"
  shows "dispatch p w ClickNext = w \<and> nextButton (dialog w) \<noteq> Enabled \<and>
         (\<not> isConfirming (dialog w) \<longrightarrow> nextButton (dialog w) = Disabled)"
  using assms by (simp add: dispatch_def view)

theorem next_without_selection_witness:
  "selectedContribution (dialog (initial example_cache)) = None \<and>
   \<not> isConfirming (dialog (initial example_cache)) \<and>
   nextButton (dialog (initial example_cache)) = Disabled \<and>
   dispatch example_props (initial example_cache) ClickNext = initial example_cache"
proof -
  have h: "selectedContribution (dialog (initial example_cache)) = None"
    by (simp add: initial_def)
  from next_without_selection [OF h, of example_props] h show ?thesis by (simp add: initial_def)
qed



subsection \<open>Committing\<close>

text \<open>
  Claim C2: on the confirming view (the path of a pending contribution), when the
  confirmation form reports success, the order of the cached row becomes the selected
  contribution, the counters \<open>processed\<close> and \<open>orders\<close> of the cached import each grow
  by exactly 1, and \<^verbatim>\<open>onClose\<close> is called after both changes: the cache it is
  called with is the changed one.
\<close>

theorem confirm_success:
  assumes "isConfirming (dialog w)"
    and "selectedContribution (dialog w) = Some c"
    and "row_order (cache w) (row_id (row p)) = Some old"
    and "import_stats (cache w) (import_id (transactionsImport p)) = Some st"
  shows "row_order (cache (dispatch p w FormSuccess)) (row_id (row p)) = Some (Some c) \<and>
         import_stats (cache (dispatch p w FormSuccess)) (import_id (transactionsImport p))
           = Some (st\<lparr>processed := processed st + 1, orders := orders st + 1\<rparr>) \<and>
         effects (dispatch p w FormSuccess)
           = effects w @ [OnClose (cache (dispatch p w FormSuccess))]"
  using assms
  by (simp add: dispatch_def onSuccess_def Let_def onClose_def modify_row_order_def
        modify_stats_def)

lemma example_submitted:
  "run example_props (initial example_cache)
     [SelectContribution (Some example_pending), ClickNext, FormSubmit]
   = \<lparr> dialog = \<lparr> selectedContribution = Some example_pending, isConfirming = True,
                   isSubmitting = True \<rparr>,
       cache = example_cache, effects = [], inflight = 0 \<rparr>"
  by (simp add: run_Cons run_Nil dispatch_def initial_def setters view example_pending_def)

theorem confirm_success_witness:
  "isConfirming (dialog (run example_props (initial example_cache)
     [SelectContribution (Some example_pending), ClickNext, FormSubmit])) \<and>
   selectedContribution (dialog (run example_props (initial example_cache)
     [SelectContribution (Some example_pending), ClickNext, FormSubmit])) = Some example_pending \<and>
   row_order (cache (run example_props (initial example_cache)
     [SelectContribution (Some example_pending), ClickNext, FormSubmit])) ''row-1'' = Some None \<and>
   import_stats (cache (run example_props (initial example_cache)
     [SelectContribution (Some example_pending), ClickNext, FormSubmit])) ''import-1''
     = Some \<lparr> processed = 3, orders = 1 \<rparr> \<and>
   row_order (cache (run example_props (initial example_cache)
     [SelectContribution (Some example_pending), ClickNext, FormSubmit, FormSuccess])) ''row-1''
     = Some (Some example_pending) \<and>
   import_stats (cache (run example_props (initial example_cache)
     [SelectContribution (Some example_pending), ClickNext, FormSubmit, FormSuccess])) ''import-1''
     = Some \<lparr> processed = 4, orders = 2 \<rparr> \<and>
   effects (run example_props (initial example_cache)
     [SelectContribution (Some example_pending), ClickNext, FormSubmit, FormSuccess])
     = [OnClose (cache (run example_props (initial example_cache)
         [SelectContribution (Some example_pending), ClickNext, FormSubmit, FormSuccess]))]"
proof -
  let ?w = "run example_props (initial example_cache)
              [SelectContribution (Some example_pending), ClickNext, FormSubmit]"
  have last: "run example_props (initial example_cache)
      [SelectContribution (Some example_pending), ClickNext, FormSubmit, FormSuccess]
      = dispatch example_props ?w FormSuccess"
    by (simp add: run_def)
  have h: "isConfirming (dialog ?w)" "selectedContribution (dialog ?w) = Some example_pending"
    "row_order (cache ?w) (row_id (row example_props)) = Some None"
    "import_stats (cache ?w) (import_id (transactionsImport example_props))
       = Some \<lparr> processed = 3, orders = 1 \<rparr>"
    unfolding example_submitted by (simp_all add: example_props_def example_cache_def)
  have ids: "row_id (row example_props) = ''row-1''"
    "import_id (transactionsImport example_props) = ''import-1''"
    by (simp_all add: example_props_def)
  have eff: "effects ?w = []"
    by (simp add: example_submitted)
  from confirm_success [OF h] h eff show ?thesis
    unfolding last ids by simp
qed

text \<open>
  Claim C3: on the direct-link path (the selected contribution has a status other than
  \<open>PENDING\<close>), a click on Save sends exactly one \<^verbatim>\<open>updateRows\<close> request, with the
  variables \<^verbatim>\<open>{importId, rows: [{id: row.id, order: {id: selectedContribution.id}}]}\<close>,
  and \<^verbatim>\<open>onClose\<close> is called whether the request succeeds or fails; when it fails
  an error toast is shown first.
\<close>

theorem direct_link_save:
  assumes "\<not> isConfirming (dialog w)"
    and "selectedContribution (dialog w) = Some c"
    and "status c = Some s"
    and "s \<noteq> PENDING"
  shows "saveButton (dialog w) = Enabled \<and>
         run p w [ClickSave, UpdateRowsSettled result] = save_onClick p result w \<and>
         effects (save_onClick p result w)
           = effects w
             @ [UpdateRows \<lparr> importId = import_id (transactionsImport p),
                             rows = [\<lparr> update_id = row_id (row p),
                                       update_order = \<lparr> ref_id = order_id c \<rparr> \<rparr>] \<rparr>]
             @ (case result of Resolved \<Rightarrow> [] | Rejected e \<Rightarrow> [ToastError e])
             @ [OnClose (cache w)]"
  using assms
  by (simp add: run_Cons run_Nil dispatch_def view save_click_def save_onClick_def save_try_def
        save_settle_def save_catch_finally_def setters Let_def split: outcome.splits)

theorem direct_link_save_witness:
  "\<not> isConfirming (dialog
     (run example_props (initial example_cache) [SelectContribution (Some example_paid)])) \<and>
   selectedContribution (dialog
     (run example_props (initial example_cache) [SelectContribution (Some example_paid)]))
     = Some example_paid \<and>
   status example_paid = Some PAID \<and> PAID \<noteq> PENDING \<and>
   saveButton (dialog
     (run example_props (initial example_cache) [SelectContribution (Some example_paid)]))
     = Enabled \<and>
   effects (run example_props
     (run example_props (initial example_cache) [SelectContribution (Some example_paid)])
     [ClickSave, UpdateRowsSettled Resolved])
   = [UpdateRows \<lparr> importId = ''import-1'',
                   rows = [\<lparr> update_id = ''row-1'', update_order = \<lparr> ref_id = ''order-9'' \<rparr> \<rparr>] \<rparr>,
      OnClose example_cache] \<and>
   effects (run example_props
     (run example_props (initial example_cache) [SelectContribution (Some example_paid)])
     [ClickSave, UpdateRowsSettled (Rejected ''Network error'')])
   = [UpdateRows \<lparr> importId = ''import-1'',
                   rows = [\<lparr> update_id = ''row-1'', update_order = \<lparr> ref_id = ''order-9'' \<rparr> \<rparr>] \<rparr>,
      ToastError ''Network error'', OnClose example_cache]"
proof -
  let ?v = "run example_props (initial example_cache) [SelectContribution (Some example_paid)]"
  have h: "\<not> isConfirming (dialog ?v)" "selectedContribution (dialog ?v) = Some example_paid"
    "status example_paid = Some PAID" "PAID \<noteq> PENDING"
    by (simp_all add: example_paid_selected) (simp add: example_paid_def)
  have ids: "row_id (row example_props) = ''row-1''"
    "import_id (transactionsImport example_props) = ''import-1''"
    "order_id example_paid = ''order-9''"
    by (simp_all add: example_props_def example_paid_def)
  have v: "effects ?v = []" "cache ?v = example_cache"
    by (simp_all add: example_paid_selected)
  from direct_link_save [OF h, of example_props Resolved]
    direct_link_save [OF h, of example_props "Rejected ''Network error''"] h
  show ?thesis
    unfolding ids v by simp
qed

subsection \<open>Next or Save\<close>

text \<open>
  Claim C5: Next, the step from browsing to confirming, is offered only when the
  selected contribution's status is \<open>PENDING\<close> or unset. When the status is anything
  else, Next is not rendered, Save is there in its place, and no event leads to the
  confirming view; so the dialog is never confirming with such a selection.
\<close>

theorem next_only_for_pending:
  assumes "reachable p w"
  shows "(offered w ClickNext \<longrightarrow>
            (\<exists>c. selectedContribution (dialog w) = Some c \<and>
                 (status c = None \<or> status c = Some PENDING))) \<and>
         (isConfirming (dialog w) \<longrightarrow>
            (\<exists>c. selectedContribution (dialog w) = Some c \<and>
                 (status c = None \<or> status c = Some PENDING))) \<and>
         (\<forall>c s. selectedContribution (dialog w) = Some c \<longrightarrow> status c = Some s \<longrightarrow> s \<noteq> PENDING \<longrightarrow>
            nextButton (dialog w) = NotRendered \<and> saveButton (dialog w) = Enabled \<and>
            \<not> isConfirming (dialog w) \<and>
            (\<forall>e. \<not> isConfirming (dialog (dispatch p w e))))"
proof -
  note inv = reachable_confirming_ok [OF assms]
  have a: "offered w ClickNext \<longrightarrow>
            (\<exists>c. selectedContribution (dialog w) = Some c \<and>
                 (status c = None \<or> status c = Some PENDING))"
    by (auto simp: view split: if_splits option.splits)
  have b: "isConfirming (dialog w) \<longrightarrow>
            (\<exists>c. selectedContribution (dialog w) = Some c \<and>
                 (status c = None \<or> status c = Some PENDING))"
    using inv by (auto simp: confirming_ok_def view split: if_splits option.splits)
  have c: "nextButton (dialog w) = NotRendered \<and> saveButton (dialog w) = Enabled \<and>
            \<not> isConfirming (dialog w) \<and> (\<forall>e. \<not> isConfirming (dialog (dispatch p w e)))"
    if sel: "selectedContribution (dialog w) = Some c" "status c = Some s" "s \<noteq> PENDING"
    for c s
  proof -
    from inv sel have nc: "\<not> isConfirming (dialog w)"
      by (auto simp: confirming_ok_def view split: if_splits)
    have "\<not> isConfirming (dialog (dispatch p w e))" for e
      using nc sel
      by (cases e)
         (simp_all add: dispatch_def setters view dialog_save_click dialog_save_settle
            dialog_onSuccess)
    with nc sel show ?thesis by (simp add: view)
  qed
  from a b c show ?thesis by blast
qed

theorem next_only_for_pending_witness:
  "reachable example_props
     (run example_props (initial example_cache) [SelectContribution (Some example_paid)]) \<and>
   selectedContribution (dialog
     (run example_props (initial example_cache) [SelectContribution (Some example_paid)]))
     = Some example_paid \<and>
   status example_paid = Some PAID \<and> PAID \<noteq> PENDING \<and>
   nextButton (dialog
     (run example_props (initial example_cache) [SelectContribution (Some example_paid)]))
     = NotRendered \<and>
   saveButton (dialog
     (run example_props (initial example_cache) [SelectContribution (Some example_paid)]))
     = Enabled \<and>
   \<not> isConfirming (dialog
     (run example_props (initial example_cache) [SelectContribution (Some example_paid), ClickNext])) \<and>
   reachable example_props
     (run example_props (initial example_cache) [SelectContribution (Some example_pending)]) \<and>
   offered (run example_props (initial example_cache) [SelectContribution (Some example_pending)])
     ClickNext \<and>
   isConfirming (dialog
     (run example_props (initial example_cache) [SelectContribution (Some example_pending), ClickNext]))"
proof -
  let ?v = "run example_props (initial example_cache) [SelectContribution (Some example_paid)]"
  let ?u = "run example_props (initial example_cache) [SelectContribution (Some example_pending)]"
  have rv: "reachable example_props ?v" and ru: "reachable example_props ?u"
    by (rule reachable_run [OF reachable.start])+
  have sel: "selectedContribution (dialog ?v) = Some example_paid"
    by (simp add: example_paid_selected)
  have st: "status example_paid = Some PAID" "PAID \<noteq> PENDING"
    by (simp_all add: example_paid_def)
  have nx: "run example_props (initial example_cache)
      [SelectContribution (Some example_paid), ClickNext] = dispatch example_props ?v ClickNext"
    by (simp add: run_def)
  have u: "offered ?u ClickNext"
    by (simp add: run_Cons run_Nil dispatch_def initial_def setters view example_pending_def)
  from next_only_for_pending [OF rv] sel st
  have "nextButton (dialog ?v) = NotRendered \<and> saveButton (dialog ?v) = Enabled \<and>
        \<not> isConfirming (dialog (dispatch example_props ?v ClickNext))"
    by blast
  with rv ru sel st u show ?thesis
    unfolding nx by (simp add: example_confirming)
qed

subsection \<open>The submitting flag\<close>

text \<open>
  Claim C6, as stated: on both submission paths \<open>isSubmitting\<close> is set when the
  submission starts and reset when it fails. It fails on the direct-link path: after a
  Save whose request is rejected, the toast is shown and \<^verbatim>\<open>onClose\<close> is called,
  and \<open>isSubmitting\<close> is still true.
\<close>

theorem direct_link_failure_leaves_isSubmitting:
  "isSubmitting (dialog (run example_props (initial example_cache)
     [SelectContribution (Some example_paid), ClickSave,
      UpdateRowsSettled (Rejected ''Network error'')])) \<and>
   effects (run example_props (initial example_cache)
     [SelectContribution (Some example_paid), ClickSave,
      UpdateRowsSettled (Rejected ''Network error'')])
   = [UpdateRows \<lparr> importId = ''import-1'',
                   rows = [\<lparr> update_id = ''row-1'', update_order = \<lparr> ref_id = ''order-9'' \<rparr> \<rparr>] \<rparr>,
      ToastError ''Network error'', OnClose example_cache]"
  by (simp add: run_Cons run_Nil dispatch_def initial_def view save_click_def save_try_def
        save_settle_def save_catch_finally_def setters Let_def example_paid_def example_props_def)

text \<open>
  Claim C6, amended: on the confirmation path \<open>isSubmitting\<close> is set to true when the
  form starts to submit and reset to false when the form reports a failure. On the
  direct-link path it is set to true when Save is clicked and is not reset, whether the
  request succeeds or fails: the handler ends with the call of \<^verbatim>\<open>onClose\<close> instead.
\<close>

theorem isSubmitting_on_both_paths:
  "isSubmitting (dialog (onSubmit w)) \<and>
   \<not> isSubmitting (dialog (onFailure w)) \<and>
   isSubmitting (dialog (save_click p w)) \<and>
   isSubmitting (dialog (save_onClick p result w)) \<and>
   last (effects (save_onClick p result w)) = OnClose (cache w)"
  by (simp add: dialog_save_click dialog_save_onClick setters)
     (simp add: save_onClick_def save_try_def save_settle_def save_catch_finally_def setters
        Let_def split: option.splits outcome.splits)


theorem isSubmitting_on_both_paths_witness:
  "isSubmitting (dialog (onSubmit (initial example_cache))) \<and>
   \<not> isSubmitting (dialog (onFailure (onSubmit (initial example_cache)))) \<and>
   isSubmitting (dialog (save_onClick example_props (Rejected ''Network error'')
     (setSelectedContribution (Some example_paid) (initial example_cache)))) \<and>
   last (effects (save_onClick example_props (Rejected ''Network error'')
     (setSelectedContribution (Some example_paid) (initial example_cache))))
     = OnClose example_cache"
  using isSubmitting_on_both_paths [of "initial example_cache"]
    isSubmitting_on_both_paths [of "onSubmit (initial example_cache)"]
    isSubmitting_on_both_paths [of "setSelectedContribution (Some example_paid) (initial example_cache)"
      example_props "Rejected ''Network error''"]
  by (simp add: setSelectedContribution_def initial_def)

end
